theory Spec2Isabelle
  imports Complex_Main
begin

section \<open>The weather relay of server.js\<close>

text \<open>
  server.js registers two GET routes on an Express application: \<^verbatim>\<open>/api/weather\<close>, which
  validates the \<^verbatim>\<open>city\<close> query parameter and the module constant
  \<^verbatim>\<open>OPENWEATHER_API_KEY\<close>, fetches one URL of the weather provider and reshapes the
  answer, and \<^verbatim>\<open>/health\<close>, which answers with a fixed text.

  The embedding follows the handlers statement by statement. The module constant and
  \<^verbatim>\<open>fetch\<close> are parameters of the handlers (closure conversion); what a handler
  does to \<^verbatim>\<open>res\<close> and the URLs it hands to \<^verbatim>\<open>fetch\<close> are its result. A
  \<^verbatim>\<open>throw\<close> is the left injection of a sum. Console output is left out: it has no
  influence on the reply.
\<close>

subsection \<open>JavaScript values\<close>

text \<open>
  The values the handler touches: \<^verbatim>\<open>undefined\<close> and what \<^verbatim>\<open>JSON.parse\<close> builds. An
  object is the list of its own properties, one entry per key. A number is only copied
  and tested for truthiness, never computed with; every finite double is a rational, and
  zero (of either sign) is the only falsy number that a JSON text denotes.
\<close>

datatype jsval =
    JUndefined
  | JNull
  | JBool bool
  | JNum rat
  | JStr string
  | JArr "jsval list"
  | JObj "(string \<times> jsval) list"

datatype js_error = FetchRejected | InvalidJson | TypeError | RangeError

text \<open>ToBoolean, as used by \<^verbatim>\<open>!x\<close> and \<^verbatim>\<open>x || y\<close>.\<close>

fun truthy :: "jsval \<Rightarrow> bool" where
  "truthy JUndefined = False"
| "truthy JNull = False"
| "truthy (JBool b) = b"
| "truthy (JNum n) = (n \<noteq> 0)"
| "truthy (JStr s) = (s \<noteq> [])"
| "truthy (JArr xs) = True"
| "truthy (JObj kvs) = True"

text \<open>\<^verbatim>\<open>x || y\<close> on values.\<close>

definition or_else :: "jsval \<Rightarrow> jsval \<Rightarrow> jsval" where
  "or_else x y = (if truthy x then x else y)"

text \<open>
  The total reading of a property, used to state what the provider's body holds at a
  path: the own property of an object, \<^verbatim>\<open>undefined\<close> where there is none.
\<close>

fun own_prop :: "jsval \<Rightarrow> string \<Rightarrow> jsval" where
  "own_prop (JObj kvs) k = (case map_of kvs k of None \<Rightarrow> JUndefined | Some v \<Rightarrow> v)"
| "own_prop v k = JUndefined"

text \<open>
  The member access \<^verbatim>\<open>v.k\<close> as JavaScript evaluates it, for the property names the
  handler reads (\<^verbatim>\<open>message\<close>, \<^verbatim>\<open>name\<close>, \<^verbatim>\<open>sys\<close>, \<^verbatim>\<open>country\<close>, \<^verbatim>\<open>main\<close>,
  \<^verbatim>\<open>temp\<close>, \<^verbatim>\<open>feels_like\<close>, \<^verbatim>\<open>humidity\<close>, \<^verbatim>\<open>weather\<close>, \<^verbatim>\<open>description\<close>,
  \<^verbatim>\<open>icon\<close>): none of them is defined on a built-in prototype, so a string, a number, a
  boolean or an array answers \<^verbatim>\<open>undefined\<close>. Reading a property of \<^verbatim>\<open>undefined\<close> or
  \<^verbatim>\<open>null\<close> throws a TypeError.
\<close>

fun get_prop :: "jsval \<Rightarrow> string \<Rightarrow> js_error + jsval" where
  "get_prop JUndefined k = Inl TypeError"
| "get_prop JNull k = Inl TypeError"
| "get_prop v k = Inr (own_prop v k)"

text \<open>
  The indexed access \<^verbatim>\<open>v[0]\<close>: the first element of an array, the first character of a
  string, the property \<^verbatim>\<open>"0"\<close> of an object, \<^verbatim>\<open>undefined\<close> where there is none; a
  TypeError on \<^verbatim>\<open>undefined\<close> and \<^verbatim>\<open>null\<close>.
\<close>

fun first_elem :: "jsval \<Rightarrow> js_error + jsval" where
  "first_elem JUndefined = Inl TypeError"
| "first_elem JNull = Inl TypeError"
| "first_elem (JArr xs) = Inr (case xs of [] \<Rightarrow> JUndefined | x # _ \<Rightarrow> x)"
| "first_elem (JStr s) = Inr (case s of [] \<Rightarrow> JUndefined | c # _ \<Rightarrow> JStr [c])"
| "first_elem (JObj kvs) = Inr (own_prop (JObj kvs) ''0'')"
| "first_elem v = Inr JUndefined"

text \<open>Sequencing of evaluations that may throw: the first throw ends the evaluation.\<close>

fun and_then :: "js_error + 'a \<Rightarrow> ('a \<Rightarrow> js_error + 'b) \<Rightarrow> js_error + 'b" where
  "and_then (Inl e) f = Inl e"
| "and_then (Inr x) f = f x"

definition dot :: "js_error + jsval \<Rightarrow> string \<Rightarrow> js_error + jsval" where
  "dot e k = and_then e (\<lambda>v. get_prop v k)"

definition at0 :: "js_error + jsval \<Rightarrow> js_error + jsval" where
  "at0 e = and_then e first_elem"

subsection \<open>The request, the provider and the reply\<close>

text \<open>
  \<^verbatim>\<open>req.query.city\<close> and \<^verbatim>\<open>process.env.OPENWEATHER_API_KEY\<close> are a string or
  \<^verbatim>\<open>undefined\<close>: \<^verbatim>\<open>falsy\<close> is \<^verbatim>\<open>!x\<close> on them and \<^verbatim>\<open>interp\<close> is their
  interpolation in a template literal. The city is the query parameter given at most
  once (the \<^verbatim>\<open>city?: string\<close> of the specification); a parameter that is repeated or
  written with brackets, which Express may parse to an array or an object, is outside
  the model.
\<close>

fun falsy :: "string option \<Rightarrow> bool" where
  "falsy None = True"
| "falsy (Some s) = (s = [])"

fun interp :: "string option \<Rightarrow> string" where
  "interp None = ''undefined''"
| "interp (Some s) = s"

text \<open>
  What \<^verbatim>\<open>await fetch(url)\<close> followed by \<^verbatim>\<open>await response.json()\<close> can give: the fetch
  rejects, or it resolves to a response with a status whose body parses to a value
  (\<open>parsed = Some data\<close>) or does not (\<open>parsed = None\<close>: \<^verbatim>\<open>response.json()\<close> rejects).
  \<^verbatim>\<open>response.ok\<close> is node-fetch's getter: the status lies in 200..299. A fetch that
  never settles is outside the model.
\<close>

record response =
  status :: nat
  parsed :: "jsval option"

datatype fetch_result = Rejects | Resolves response

definition ok :: "response \<Rightarrow> bool" where
  "ok r = (200 \<le> status r \<and> status r < 300)"

text \<open>A provider that answers every URL with the same result.\<close>

definition stub :: "fetch_result \<Rightarrow> string \<Rightarrow> fetch_result" where
  "stub r url = r"

text \<open>
  The reply written to \<^verbatim>\<open>res\<close>: the status code and either the value given to
  \<^verbatim>\<open>res.json\<close> or the text given to \<^verbatim>\<open>res.send\<close>. A property whose value is
  \<^verbatim>\<open>undefined\<close> is left out when \<^verbatim>\<open>res.json\<close> serialises the object.
\<close>

datatype body = Json jsval | Text string

record reply =
  statusCode :: nat
  content :: body

text \<open>What one run of a handler did: its reply and the URLs it gave to \<^verbatim>\<open>fetch\<close>, in order.\<close>

record outcome =
  res :: reply
  fetched :: "string list"

definition json_reply :: "nat \<Rightarrow> jsval \<Rightarrow> reply" where
  "json_reply s v = \<lparr>statusCode = s, content = Json v\<rparr>"

definition error_body :: "jsval \<Rightarrow> jsval" where
  "error_body m = JObj [(''error'', m)]"

text \<open>
  \<^verbatim>\<open>res.status(code)\<close> with a code that is not fixed in the source, the provider's:
  Express sets the code of the reply and throws a RangeError for a code outside 100..999.
  The codes 400 and 500 that the handler writes itself pass.
\<close>

definition res_status :: "nat \<Rightarrow> js_error + nat" where
  "res_status code = (if code < 100 \<or> 999 < code then Inl RangeError else Inr code)"

subsection \<open>The handler of /api/weather\<close>

definition openWeatherMapUrl :: "string option \<Rightarrow> string option \<Rightarrow> string" where
  "openWeatherMapUrl city OPENWEATHER_API_KEY =
     ''https://api.openweathermap.org/data/2.5/weather?q='' @ interp city @
     ''&appid='' @ interp OPENWEATHER_API_KEY @ ''&units=metric''"

text \<open>The object literal \<^verbatim>\<open>weatherInfo\<close>, its seven property values evaluated in order.\<close>

definition weatherInfo :: "jsval \<Rightarrow> js_error + jsval" where
  "weatherInfo data =
     and_then (dot (Inr data) ''name'') (\<lambda>name.
     and_then (dot (dot (Inr data) ''sys'') ''country'') (\<lambda>country.
     and_then (dot (dot (Inr data) ''main'') ''temp'') (\<lambda>temp.
     and_then (dot (dot (Inr data) ''main'') ''feels_like'') (\<lambda>feels_like.
     and_then (dot (at0 (dot (Inr data) ''weather'')) ''description'') (\<lambda>description.
     and_then (dot (at0 (dot (Inr data) ''weather'')) ''icon'') (\<lambda>icon.
     and_then (dot (dot (Inr data) ''main'') ''humidity'') (\<lambda>humidity.
       Inr (JObj [(''city'', name), (''country'', country), (''temperature'', temp),
                  (''feelsLike'', feels_like), (''description'', description),
                  (''icon'', icon), (''humidity'', humidity)]))))))))"

text \<open>
  The body of the \<^verbatim>\<open>try\<close> block, from the result of the fetch on. On a response that is
  not ok, \<^verbatim>\<open>data.message\<close> is read for the console, then
  \<^verbatim>\<open>res.status(response.status)\<close> is called, then \<^verbatim>\<open>data.message\<close> is read again for
  the argument of \<^verbatim>\<open>json\<close>.
\<close>

definition try_block :: "fetch_result \<Rightarrow> js_error + reply" where
  "try_block r =
     (case r of
        Rejects \<Rightarrow> Inl FetchRejected
      | Resolves response \<Rightarrow>
          (case parsed response of
             None \<Rightarrow> Inl InvalidJson
           | Some data \<Rightarrow>
               if \<not> ok response then
                 and_then (dot (Inr data) ''message'') (\<lambda>logged.
                 and_then (res_status (status response)) (\<lambda>code.
                 and_then (dot (Inr data) ''message'') (\<lambda>message.
                   Inr (json_reply code
                     (error_body (or_else message
                        (JStr ''Error fetching weather data from external API'')))))))
               else
                 and_then (weatherInfo data) (\<lambda>info. Inr (json_reply 200 info))))"

text \<open>
  The handler. The two guards return before the \<^verbatim>\<open>try\<close>; the \<^verbatim>\<open>catch\<close> clause turns
  every throw of the block into the reply 500. The result is a sum as well: \<open>Inl\<close> would
  be a throw that leaves the handler.
\<close>

definition api_weather ::
  "string option \<Rightarrow> (string \<Rightarrow> fetch_result) \<Rightarrow> string option \<Rightarrow> js_error + outcome" where
  "api_weather OPENWEATHER_API_KEY fetch city =
     (if falsy city then
        Inr \<lparr>res = json_reply 400 (error_body (JStr ''City parameter is required.'')),
             fetched = []\<rparr>
      else if falsy OPENWEATHER_API_KEY then
        Inr \<lparr>res = json_reply 500
                     (error_body (JStr ''Server is not configured with the API key.'')),
             fetched = []\<rparr>
      else
        (let url = openWeatherMapUrl city OPENWEATHER_API_KEY in
           case try_block (fetch url) of
             Inr sent \<Rightarrow> Inr \<lparr>res = sent, fetched = [url]\<rparr>
           | Inl error \<Rightarrow>
               Inr \<lparr>res = json_reply 500 (error_body (JStr ''Failed to fetch weather data.'')),
                    fetched = [url]\<rparr>))"

subsection \<open>The handler of /health and the application\<close>

datatype route = ApiWeather | Health

record request =
  matched :: route
  query_city :: "string option"

definition health :: "request \<Rightarrow> js_error + outcome" where
  "health req =
     Inr \<lparr>res = \<lparr>statusCode = 200, content = Text ''Backend is healthy!''\<rparr>, fetched = []\<rparr>"

text \<open>
  The application after Express has matched the path of a GET request to one of the two
  registered routes.
\<close>

definition app ::
  "string option \<Rightarrow> (string \<Rightarrow> fetch_result) \<Rightarrow> request \<Rightarrow> js_error + outcome" where
  "app OPENWEATHER_API_KEY fetch req =
     (case matched req of
        ApiWeather \<Rightarrow> api_weather OPENWEATHER_API_KEY fetch (query_city req)
      | Health \<Rightarrow> health req)"

subsection \<open>Vocabulary of the properties\<close>

text \<open>
  The well-formed provider body in the words of the specification: it contains
  \<^verbatim>\<open>name\<close>, \<^verbatim>\<open>sys.country\<close>, \<^verbatim>\<open>main.temp\<close>, \<^verbatim>\<open>main.feels_like\<close>,
  \<^verbatim>\<open>main.humidity\<close> and a non-empty \<^verbatim>\<open>weather\<close> list. \<open>has_own v k\<close> says that
  \<open>v\<close> is an object with an own property \<open>k\<close>.
\<close>

definition has_own :: "jsval \<Rightarrow> string \<Rightarrow> bool" where
  "has_own v k = (case v of JObj kvs \<Rightarrow> map_of kvs k \<noteq> None | _ \<Rightarrow> False)"

definition well_formed :: "jsval \<Rightarrow> bool" where
  "well_formed data =
     (has_own data ''name'' \<and>
      has_own (own_prop data ''sys'') ''country'' \<and>
      has_own (own_prop data ''main'') ''temp'' \<and>
      has_own (own_prop data ''main'') ''feels_like'' \<and>
      has_own (own_prop data ''main'') ''humidity'' \<and>
      (case own_prop data ''weather'' of JArr (w # ws) \<Rightarrow> True | _ \<Rightarrow> False))"

definition is_string :: "jsval \<Rightarrow> bool" where
  "is_string v = (case v of JStr s \<Rightarrow> True | _ \<Rightarrow> False)"

text \<open>
  The total reading of \<^verbatim>\<open>v[0]\<close>, used to state what the provider's body holds there:
  the value of \<open>first_elem\<close> where that does not throw, \<^verbatim>\<open>undefined\<close> elsewhere.
\<close>

fun own_first :: "jsval \<Rightarrow> jsval" where
  "own_first (JArr xs) = (case xs of [] \<Rightarrow> JUndefined | x # _ \<Rightarrow> x)"
| "own_first (JStr s) = (case s of [] \<Rightarrow> JUndefined | c # _ \<Rightarrow> JStr [c])"
| "own_first (JObj kvs) = own_prop (JObj kvs) ''0''"
| "own_first v = JUndefined"

section \<open>Auxiliary facts\<close>

lemma and_then_case:
  "and_then r f = (case r of Inl e \<Rightarrow> Inl e | Inr x \<Rightarrow> f x)"
  by (cases r) simp_all

lemma api_weather_called:
  assumes "\<not> falsy city" "\<not> falsy OPENWEATHER_API_KEY"
  shows "api_weather OPENWEATHER_API_KEY fetch city =
           (case try_block (fetch (openWeatherMapUrl city OPENWEATHER_API_KEY)) of
              Inr sent \<Rightarrow> Inr \<lparr>res = sent, fetched = [openWeatherMapUrl city OPENWEATHER_API_KEY]\<rparr>
            | Inl error \<Rightarrow>
                Inr \<lparr>res = \<lparr>statusCode = 500,
                            content = Json (JObj [(''error'', JStr ''Failed to fetch weather data.'')])\<rparr>,
                     fetched = [openWeatherMapUrl city OPENWEATHER_API_KEY]\<rparr>)"
  using assms by (simp add: api_weather_def json_reply_def error_body_def Let_def split: sum.splits)

lemma try_block_ok:
  assumes "ok response" "parsed response = Some data"
  shows "try_block (Resolves response) =
           and_then (weatherInfo data) (\<lambda>info. Inr (json_reply 200 info))"
  using assms by (simp add: try_block_def)

lemma try_block_not_ok:
  assumes "\<not> ok response" "parsed response = Some data"
  shows "try_block (Resolves response) =
           and_then (dot (Inr data) ''message'') (\<lambda>logged.
           and_then (res_status (status response)) (\<lambda>code.
           and_then (dot (Inr data) ''message'') (\<lambda>message.
             Inr (json_reply code
               (error_body (or_else message
                  (JStr ''Error fetching weather data from external API'')))))))"
  using assms by (simp add: try_block_def)

lemma get_prop_defined:
  "v \<noteq> JUndefined \<Longrightarrow> v \<noteq> JNull \<Longrightarrow> get_prop v k = Inr (own_prop v k)"
  by (cases v) simp_all

lemma has_own_defined: "has_own v k \<Longrightarrow> v \<noteq> JUndefined \<and> v \<noteq> JNull"
  by (cases v) (simp_all add: has_own_def)

lemma dot_Inr:
  "v \<noteq> JUndefined \<Longrightarrow> v \<noteq> JNull \<Longrightarrow> dot (Inr v) k = Inr (own_prop v k)"
  by (simp add: dot_def get_prop_defined)

lemma weatherInfo_throws:
  assumes "dot (at0 (dot (Inr data) ''weather'')) ''description'' = Inl e"
  shows "\<exists>e'. weatherInfo data = Inl e'"
  using assms unfolding weatherInfo_def and_then_case
  by (simp split: sum.splits)

lemma no_weather_throws:
  assumes "own_prop data ''weather'' = JUndefined \<or> own_prop data ''weather'' = JArr []"
  shows "dot (at0 (dot (Inr data) ''weather'')) ''description'' = Inl TypeError"
  using assms by (cases data) (auto simp: dot_def at0_def)

lemma weatherInfo_well_formed:
  assumes wf: "well_formed data"
    and w: "own_prop data ''weather'' = JArr (w # ws)"
    and nn: "w \<noteq> JNull" "w \<noteq> JUndefined"
  shows "weatherInfo data =
           Inr (JObj [(''city'', own_prop data ''name''),
                      (''country'', own_prop (own_prop data ''sys'') ''country''),
                      (''temperature'', own_prop (own_prop data ''main'') ''temp''),
                      (''feelsLike'', own_prop (own_prop data ''main'') ''feels_like''),
                      (''description'', own_prop w ''description''),
                      (''icon'', own_prop w ''icon''),
                      (''humidity'', own_prop (own_prop data ''main'') ''humidity'')])"
proof -
  have d: "data \<noteq> JUndefined" "data \<noteq> JNull"
    using wf has_own_defined [of data "''name''"] by (simp_all add: well_formed_def)
  have s: "own_prop data ''sys'' \<noteq> JUndefined" "own_prop data ''sys'' \<noteq> JNull"
    using wf has_own_defined [of "own_prop data ''sys''" "''country''"]
    by (simp_all add: well_formed_def)
  have m: "own_prop data ''main'' \<noteq> JUndefined" "own_prop data ''main'' \<noteq> JNull"
    using wf has_own_defined [of "own_prop data ''main''" "''temp''"]
    by (simp_all add: well_formed_def)
  have first: "at0 (dot (Inr data) ''weather'') = Inr w"
    using d w by (simp add: dot_Inr at0_def)
  show ?thesis
    unfolding weatherInfo_def first
    using d s m nn by (simp add: dot_Inr)
qed

lemma dot_Inr_value:
  assumes "dot r k = Inr v"
  shows "\<exists>u. r = Inr u \<and> v = own_prop u k"
proof (cases r)
  case (Inl e)
  with assms show ?thesis by (simp add: dot_def)
next
  case (Inr u)
  with assms have "get_prop u k = Inr v" by (simp add: dot_def)
  then have "v = own_prop u k" by (cases u) simp_all
  with Inr show ?thesis by simp
qed

lemma at0_Inr_value:
  assumes "at0 r = Inr v"
  shows "\<exists>u. r = Inr u \<and> v = own_first u"
proof (cases r)
  case (Inl e)
  with assms show ?thesis by (simp add: at0_def)
next
  case (Inr u)
  with assms have "first_elem u = Inr v" by (simp add: at0_def)
  then have "v = own_first u" by (cases u) auto
  with Inr show ?thesis by simp
qed

lemma weatherInfo_values:
  assumes "weatherInfo data = Inr v"
  shows "v = JObj [(''city'', own_prop data ''name''),
                   (''country'', own_prop (own_prop data ''sys'') ''country''),
                   (''temperature'', own_prop (own_prop data ''main'') ''temp''),
                   (''feelsLike'', own_prop (own_prop data ''main'') ''feels_like''),
                   (''description'',
                      own_prop (own_first (own_prop data ''weather'')) ''description''),
                   (''icon'', own_prop (own_first (own_prop data ''weather'')) ''icon''),
                   (''humidity'', own_prop (own_prop data ''main'') ''humidity'')]"
  using assms unfolding weatherInfo_def and_then_case
  by (auto split: sum.splits dest!: dot_Inr_value at0_Inr_value)

lemma try_block_sent:
  assumes "try_block r = Inr sent"
  shows "\<exists>response data.
           r = Resolves response \<and> parsed response = Some data \<and>
           (if ok response then
              sent = \<lparr>statusCode = 200,
                      content = Json (JObj
                        [(''city'', own_prop data ''name''),
                         (''country'', own_prop (own_prop data ''sys'') ''country''),
                         (''temperature'', own_prop (own_prop data ''main'') ''temp''),
                         (''feelsLike'', own_prop (own_prop data ''main'') ''feels_like''),
                         (''description'',
                            own_prop (own_first (own_prop data ''weather'')) ''description''),
                         (''icon'', own_prop (own_first (own_prop data ''weather'')) ''icon''),
                         (''humidity'', own_prop (own_prop data ''main'') ''humidity'')])\<rparr>
            else
              sent = \<lparr>statusCode = status response,
                      content = Json (JObj
                        [(''error'', or_else (own_prop data ''message'')
                           (JStr ''Error fetching weather data from external API''))])\<rparr>)"
proof (cases r)
  case Rejects
  with assms show ?thesis by (simp add: try_block_def)
next
  case (Resolves response)
  show ?thesis
  proof (cases "parsed response")
    case None
    with assms Resolves show ?thesis by (simp add: try_block_def)
  next
    case (Some data)
    show ?thesis
    proof (cases "ok response")
      case True
      with assms Resolves Some
      have "and_then (weatherInfo data) (\<lambda>info. Inr (json_reply 200 info)) = Inr sent"
        by (simp add: try_block_ok)
      then obtain info where i: "weatherInfo data = Inr info" and s: "sent = json_reply 200 info"
        by (cases "weatherInfo data") auto
      from weatherInfo_values [OF i] s Resolves Some True show ?thesis
        by (simp add: json_reply_def)
    next
      case False
      with assms Resolves Some
      have t: "and_then (dot (Inr data) ''message'') (\<lambda>logged.
               and_then (res_status (status response)) (\<lambda>code.
               and_then (dot (Inr data) ''message'') (\<lambda>message.
                 Inr (json_reply code
                   (error_body (or_else message
                      (JStr ''Error fetching weather data from external API'')))))))
               = Inr sent"
        by (simp add: try_block_not_ok)
      then obtain m where m: "dot (Inr data) ''message'' = Inr m"
        by (cases "dot (Inr data) ''message''") auto
      with t obtain code where c: "res_status (status response) = Inr code"
        by (cases "res_status (status response)") auto
      then have code: "code = status response"
        by (simp add: res_status_def split: if_splits)
      from t m c code have "sent = json_reply (status response)
                   (error_body (or_else m
                      (JStr ''Error fetching weather data from external API'')))"
        by simp
      moreover from dot_Inr_value [OF m] have "m = own_prop data ''message''" by simp
      ultimately show ?thesis
        using Resolves Some False by (simp add: json_reply_def error_body_def)
    qed
  qed
qed

section \<open>Properties\<close>

text \<open>
  C1, as amended: when the city and the credential are non-empty strings and the provider
  answers with a 2xx status and a body that is well formed and whose first \<^verbatim>\<open>weather\<close>
  entry is neither \<^verbatim>\<open>null\<close> nor \<^verbatim>\<open>undefined\<close>, the handler replies 200 with the
  seven fields \<^verbatim>\<open>city\<close>, \<^verbatim>\<open>country\<close>, \<^verbatim>\<open>temperature\<close>, \<^verbatim>\<open>feelsLike\<close>,
  \<^verbatim>\<open>description\<close>, \<^verbatim>\<open>icon\<close>, \<^verbatim>\<open>humidity\<close> holding the provider's \<^verbatim>\<open>name\<close>,
  \<^verbatim>\<open>sys.country\<close>, \<^verbatim>\<open>main.temp\<close>, \<^verbatim>\<open>main.feels_like\<close>,
  \<^verbatim>\<open>weather[0].description\<close>, \<^verbatim>\<open>weather[0].icon\<close> and \<^verbatim>\<open>main.humidity\<close>, unchanged.
\<close>

theorem summary_copies_provider_fields:
  assumes "\<not> falsy city" and "\<not> falsy OPENWEATHER_API_KEY"
    and "fetch (openWeatherMapUrl city OPENWEATHER_API_KEY) = Resolves response"
    and "ok response" and "parsed response = Some data"
    and "well_formed data"
    and "own_prop data ''weather'' = JArr (w # ws)"
    and "w \<noteq> JNull" and "w \<noteq> JUndefined"
  shows "api_weather OPENWEATHER_API_KEY fetch city =
           Inr \<lparr>res = \<lparr>statusCode = 200,
                       content = Json (JObj
                         [(''city'', own_prop data ''name''),
                          (''country'', own_prop (own_prop data ''sys'') ''country''),
                          (''temperature'', own_prop (own_prop data ''main'') ''temp''),
                          (''feelsLike'', own_prop (own_prop data ''main'') ''feels_like''),
                          (''description'', own_prop w ''description''),
                          (''icon'', own_prop w ''icon''),
                          (''humidity'', own_prop (own_prop data ''main'') ''humidity'')])\<rparr>,
                fetched = [openWeatherMapUrl city OPENWEATHER_API_KEY]\<rparr>"
proof -
  have "try_block (fetch (openWeatherMapUrl city OPENWEATHER_API_KEY)) =
          and_then (weatherInfo data) (\<lambda>info. Inr (json_reply 200 info))"
    using assms(3-5) by (simp add: try_block_ok)
  then show ?thesis
    using assms(1,2) weatherInfo_well_formed [OF assms(6-9)]
    by (simp add: api_weather_called json_reply_def)
qed

theorem summary_copies_provider_fields_witness:
  "api_weather (Some ''k'')
     (stub (Resolves \<lparr>status = 200, parsed = Some (JObj
        [(''name'', JStr ''London''),
         (''sys'', JObj [(''country'', JStr ''GB'')]),
         (''main'', JObj [(''temp'', JNum 15), (''feels_like'', JNum 14), (''humidity'', JNum 80)]),
         (''weather'', JArr [JObj [(''description'', JStr ''rain''), (''icon'', JStr ''10d'')]])])\<rparr>))
     (Some ''London'') =
   Inr \<lparr>res = \<lparr>statusCode = 200,
               content = Json (JObj
                 [(''city'', JStr ''London''), (''country'', JStr ''GB''),
                  (''temperature'', JNum 15), (''feelsLike'', JNum 14),
                  (''description'', JStr ''rain''), (''icon'', JStr ''10d''),
                  (''humidity'', JNum 80)])\<rparr>,
        fetched = [''https://api.openweathermap.org/data/2.5/weather?q=London&appid=k&units=metric'']\<rparr>"
  using summary_copies_provider_fields
    [of "Some ''London''" "Some ''k''"
        "stub (Resolves \<lparr>status = 200, parsed = Some (JObj
        [(''name'', JStr ''London''),
         (''sys'', JObj [(''country'', JStr ''GB'')]),
         (''main'', JObj [(''temp'', JNum 15), (''feels_like'', JNum 14), (''humidity'', JNum 80)]),
         (''weather'', JArr [JObj [(''description'', JStr ''rain''), (''icon'', JStr ''10d'')]])])\<rparr>)"
        "\<lparr>status = 200, parsed = Some (JObj
        [(''name'', JStr ''London''),
         (''sys'', JObj [(''country'', JStr ''GB'')]),
         (''main'', JObj [(''temp'', JNum 15), (''feels_like'', JNum 14), (''humidity'', JNum 80)]),
         (''weather'', JArr [JObj [(''description'', JStr ''rain''), (''icon'', JStr ''10d'')]])])\<rparr>"
        "JObj
        [(''name'', JStr ''London''),
         (''sys'', JObj [(''country'', JStr ''GB'')]),
         (''main'', JObj [(''temp'', JNum 15), (''feels_like'', JNum 14), (''humidity'', JNum 80)]),
         (''weather'', JArr [JObj [(''description'', JStr ''rain''), (''icon'', JStr ''10d'')]])]"
        "JObj [(''description'', JStr ''rain''), (''icon'', JStr ''10d'')]" "[]"]
  by (simp add: stub_def ok_def well_formed_def has_own_def openWeatherMapUrl_def)

text \<open>
  The claim as first stated asks only for a non-empty \<^verbatim>\<open>weather\<close> list. A list whose
  first entry is \<^verbatim>\<open>null\<close> is non-empty, the body is well formed, and reading
  \<^verbatim>\<open>data.weather[0].description\<close> throws: the reply is 500.
\<close>

theorem null_weather_entry_counterexample:
  "well_formed (JObj
        [(''name'', JStr ''London''),
         (''sys'', JObj [(''country'', JStr ''GB'')]),
         (''main'', JObj [(''temp'', JNum 15), (''feels_like'', JNum 14), (''humidity'', JNum 80)]),
         (''weather'', JArr [JNull])])
   \<and> api_weather (Some ''k'')
     (stub (Resolves \<lparr>status = 200, parsed = Some (JObj
        [(''name'', JStr ''London''),
         (''sys'', JObj [(''country'', JStr ''GB'')]),
         (''main'', JObj [(''temp'', JNum 15), (''feels_like'', JNum 14), (''humidity'', JNum 80)]),
         (''weather'', JArr [JNull])])\<rparr>))
     (Some ''London'') =
   Inr \<lparr>res = \<lparr>statusCode = 500,
               content = Json (JObj [(''error'', JStr ''Failed to fetch weather data.'')])\<rparr>,
        fetched = [''https://api.openweathermap.org/data/2.5/weather?q=London&appid=k&units=metric'']\<rparr>"
  by (simp add: well_formed_def has_own_def api_weather_def try_block_def weatherInfo_def
      dot_def at0_def stub_def ok_def openWeatherMapUrl_def json_reply_def error_body_def)

text \<open>
  C2: a request whose city parameter is absent or the empty string is answered with 400
  and the body \<^verbatim>\<open>{ error: "City parameter is required." }\<close>, and nothing is fetched,
  whatever the credential and the provider.
\<close>

theorem missing_city_400:
  assumes "city = None \<or> city = Some []"
  shows "api_weather OPENWEATHER_API_KEY fetch city =
           Inr \<lparr>res = \<lparr>statusCode = 400,
                       content = Json (JObj [(''error'', JStr ''City parameter is required.'')])\<rparr>,
                fetched = []\<rparr>"
  using assms by (auto simp: api_weather_def json_reply_def error_body_def)

theorem missing_city_400_witness:
  "api_weather None (stub Rejects) None =
     Inr \<lparr>res = \<lparr>statusCode = 400,
                 content = Json (JObj [(''error'', JStr ''City parameter is required.'')])\<rparr>,
          fetched = []\<rparr>
   \<and> api_weather (Some ''k'') (stub Rejects) (Some []) =
     Inr \<lparr>res = \<lparr>statusCode = 400,
                 content = Json (JObj [(''error'', JStr ''City parameter is required.'')])\<rparr>,
          fetched = []\<rparr>"
  using missing_city_400 [of None None "stub Rejects"]
        missing_city_400 [of "Some []" "Some ''k''" "stub Rejects"]
  by simp

text \<open>
  C3, as amended: when the credential is unset, every request whose city is a non-empty
  string is answered with 500 and the message
  \<^verbatim>\<open>Server is not configured with the API key.\<close>, and nothing is fetched.
\<close>

theorem unset_key_500:
  assumes "\<not> falsy city"
  shows "api_weather None fetch city =
           Inr \<lparr>res = \<lparr>statusCode = 500,
                       content = Json (JObj
                         [(''error'', JStr ''Server is not configured with the API key.'')])\<rparr>,
                fetched = []\<rparr>"
  using assms by (simp add: api_weather_def json_reply_def error_body_def)

theorem unset_key_500_witness:
  "api_weather None (stub Rejects) (Some ''London'') =
     Inr \<lparr>res = \<lparr>statusCode = 500,
                 content = Json (JObj
                   [(''error'', JStr ''Server is not configured with the API key.'')])\<rparr>,
          fetched = []\<rparr>"
  using unset_key_500 [of "Some ''London''" "stub Rejects"] by simp

text \<open>
  Without the restriction the claim fails: the city is checked first, so with the
  credential unset a request with no city, or an empty one, is answered with 400.
\<close>

theorem unset_key_missing_city_counterexample:
  "api_weather None (stub Rejects) None =
     Inr \<lparr>res = \<lparr>statusCode = 400,
                 content = Json (JObj [(''error'', JStr ''City parameter is required.'')])\<rparr>,
          fetched = []\<rparr>
   \<and> api_weather None (stub Rejects) (Some []) =
     Inr \<lparr>res = \<lparr>statusCode = 400,
                 content = Json (JObj [(''error'', JStr ''City parameter is required.'')])\<rparr>,
          fetched = []\<rparr>"
  by (simp add: api_weather_def json_reply_def error_body_def)

text \<open>
  C4, as amended: when the provider answers with a status outside 200..299 and within
  100..999 and a body that parses to a value other than \<^verbatim>\<open>null\<close>, the handler replies
  with the provider's status and \<^verbatim>\<open>{ error: m }\<close>, where \<open>m\<close> is the body's
  \<^verbatim>\<open>message\<close> when that is truthy and
  \<^verbatim>\<open>Error fetching weather data from external API\<close> otherwise.
\<close>

theorem upstream_error_forwarded:
  assumes "\<not> falsy city" and "\<not> falsy OPENWEATHER_API_KEY"
    and "fetch (openWeatherMapUrl city OPENWEATHER_API_KEY) = Resolves response"
    and "\<not> ok response" and "100 \<le> status response" and "status response \<le> 999"
    and "parsed response = Some data"
    and "data \<noteq> JNull" and "data \<noteq> JUndefined"
  shows "api_weather OPENWEATHER_API_KEY fetch city =
           Inr \<lparr>res = \<lparr>statusCode = status response,
                       content = Json (JObj
                         [(''error'',
                           if truthy (own_prop data ''message'') then own_prop data ''message''
                           else JStr ''Error fetching weather data from external API'')])\<rparr>,
                fetched = [openWeatherMapUrl city OPENWEATHER_API_KEY]\<rparr>"
proof -
  have "res_status (status response) = Inr (status response)"
    using assms(5,6) by (simp add: res_status_def)
  then have "try_block (fetch (openWeatherMapUrl city OPENWEATHER_API_KEY)) =
          Inr (json_reply (status response)
            (error_body (or_else (own_prop data ''message'')
               (JStr ''Error fetching weather data from external API''))))"
    using assms(3,4,7-9) by (simp add: try_block_not_ok dot_Inr)
  then show ?thesis
    using assms(1,2)
    by (simp add: api_weather_called json_reply_def error_body_def or_else_def)
qed

theorem upstream_error_forwarded_witness:
  "api_weather (Some ''k'')
     (stub (Resolves \<lparr>status = 404,
                      parsed = Some (JObj [(''cod'', JStr ''404''),
                                           (''message'', JStr ''city not found'')])\<rparr>))
     (Some ''Atlantis'') =
   Inr \<lparr>res = \<lparr>statusCode = 404,
               content = Json (JObj [(''error'', JStr ''city not found'')])\<rparr>,
        fetched = [''https://api.openweathermap.org/data/2.5/weather?q=Atlantis&appid=k&units=metric'']\<rparr>
   \<and> api_weather (Some ''k'')
     (stub (Resolves \<lparr>status = 503, parsed = Some (JObj [])\<rparr>))
     (Some ''Atlantis'') =
   Inr \<lparr>res = \<lparr>statusCode = 503,
               content = Json (JObj
                 [(''error'', JStr ''Error fetching weather data from external API'')])\<rparr>,
        fetched = [''https://api.openweathermap.org/data/2.5/weather?q=Atlantis&appid=k&units=metric'']\<rparr>"
  using upstream_error_forwarded
    [of "Some ''Atlantis''" "Some ''k''"
        "stub (Resolves \<lparr>status = 404,
                      parsed = Some (JObj [(''cod'', JStr ''404''),
                                           (''message'', JStr ''city not found'')])\<rparr>)"
        "\<lparr>status = 404,
                      parsed = Some (JObj [(''cod'', JStr ''404''),
                                           (''message'', JStr ''city not found'')])\<rparr>"
        "JObj [(''cod'', JStr ''404''), (''message'', JStr ''city not found'')]"]
    upstream_error_forwarded
    [of "Some ''Atlantis''" "Some ''k''"
        "stub (Resolves \<lparr>status = 503, parsed = Some (JObj [])\<rparr>)"
        "\<lparr>status = 503, parsed = Some (JObj [])\<rparr>"
        "JObj []"]
  by (simp add: stub_def ok_def openWeatherMapUrl_def)

text \<open>
  The body is parsed, and \<^verbatim>\<open>data.message\<close> is read, inside the \<^verbatim>\<open>try\<close> block and
  before the status is looked at, and \<^verbatim>\<open>res.status\<close> refuses a code below 100: a 404
  whose body is \<^verbatim>\<open>null\<close>, a 502 whose body is not JSON and a status 99 with a message
  are all answered with 500, not with the provider's status.
\<close>

theorem upstream_error_unreadable_body_counterexample:
  "api_weather (Some ''k'') (stub (Resolves \<lparr>status = 404, parsed = Some JNull\<rparr>))
     (Some ''Atlantis'') =
   Inr \<lparr>res = \<lparr>statusCode = 500,
               content = Json (JObj [(''error'', JStr ''Failed to fetch weather data.'')])\<rparr>,
        fetched = [''https://api.openweathermap.org/data/2.5/weather?q=Atlantis&appid=k&units=metric'']\<rparr>
   \<and> api_weather (Some ''k'') (stub (Resolves \<lparr>status = 502, parsed = None\<rparr>))
     (Some ''Atlantis'') =
   Inr \<lparr>res = \<lparr>statusCode = 500,
               content = Json (JObj [(''error'', JStr ''Failed to fetch weather data.'')])\<rparr>,
        fetched = [''https://api.openweathermap.org/data/2.5/weather?q=Atlantis&appid=k&units=metric'']\<rparr>
   \<and> api_weather (Some ''k'')
     (stub (Resolves \<lparr>status = 99,
                      parsed = Some (JObj [(''message'', JStr ''city not found'')])\<rparr>))
     (Some ''Atlantis'') =
   Inr \<lparr>res = \<lparr>statusCode = 500,
               content = Json (JObj [(''error'', JStr ''Failed to fetch weather data.'')])\<rparr>,
        fetched = [''https://api.openweathermap.org/data/2.5/weather?q=Atlantis&appid=k&units=metric'']\<rparr>"
  by (simp add: api_weather_def try_block_def dot_def res_status_def stub_def ok_def
      openWeatherMapUrl_def json_reply_def error_body_def)

text \<open>
  C5: when the fetch rejects, or the body of the response cannot be parsed as JSON, the
  handler replies 500 with \<^verbatim>\<open>{ error: "Failed to fetch weather data." }\<close>.
\<close>

theorem transport_failure_500:
  assumes "\<not> falsy city" and "\<not> falsy OPENWEATHER_API_KEY"
    and "fetch (openWeatherMapUrl city OPENWEATHER_API_KEY) = Rejects \<or>
         (\<exists>response. fetch (openWeatherMapUrl city OPENWEATHER_API_KEY) = Resolves response \<and>
                      parsed response = None)"
  shows "api_weather OPENWEATHER_API_KEY fetch city =
           Inr \<lparr>res = \<lparr>statusCode = 500,
                       content = Json (JObj [(''error'', JStr ''Failed to fetch weather data.'')])\<rparr>,
                fetched = [openWeatherMapUrl city OPENWEATHER_API_KEY]\<rparr>"
proof -
  have "\<exists>e. try_block (fetch (openWeatherMapUrl city OPENWEATHER_API_KEY)) = Inl e"
    using assms(3) by (auto simp: try_block_def)
  then show ?thesis
    using assms(1,2) by (auto simp: api_weather_called)
qed

theorem transport_failure_500_witness:
  "api_weather (Some ''k'') (stub Rejects) (Some ''London'') =
     Inr \<lparr>res = \<lparr>statusCode = 500,
                 content = Json (JObj [(''error'', JStr ''Failed to fetch weather data.'')])\<rparr>,
          fetched = [''https://api.openweathermap.org/data/2.5/weather?q=London&appid=k&units=metric'']\<rparr>
   \<and> api_weather (Some ''k'') (stub (Resolves \<lparr>status = 200, parsed = None\<rparr>)) (Some ''London'') =
     Inr \<lparr>res = \<lparr>statusCode = 500,
                 content = Json (JObj [(''error'', JStr ''Failed to fetch weather data.'')])\<rparr>,
          fetched = [''https://api.openweathermap.org/data/2.5/weather?q=London&appid=k&units=metric'']\<rparr>"
  using transport_failure_500 [of "Some ''London''" "Some ''k''" "stub Rejects"]
    transport_failure_500 [of "Some ''London''" "Some ''k''"
      "stub (Resolves \<lparr>status = 200, parsed = None\<rparr>)"]
  by (simp add: stub_def openWeatherMapUrl_def)

text \<open>
  C6: a request routed to /health is answered with 200 and the text
  \<^verbatim>\<open>Backend is healthy!\<close>, and nothing is fetched, whatever the credential, the city
  parameter and the provider.
\<close>

theorem health_always_200:
  assumes "matched req = Health"
  shows "app OPENWEATHER_API_KEY fetch req =
           Inr \<lparr>res = \<lparr>statusCode = 200, content = Text ''Backend is healthy!''\<rparr>,
                fetched = []\<rparr>"
  using assms by (simp add: app_def health_def)

theorem health_always_200_witness:
  "app None (stub Rejects) \<lparr>matched = Health, query_city = Some ''London''\<rparr> =
     Inr \<lparr>res = \<lparr>statusCode = 200, content = Text ''Backend is healthy!''\<rparr>, fetched = []\<rparr>"
  using health_always_200 [of "\<lparr>matched = Health, query_city = Some ''London''\<rparr>" None "stub Rejects"]
  by simp

text \<open>
  C7, as amended: every run of the handler fetches at most once; it fetches exactly once,
  the URL built from the city and the credential, when both are non-empty strings, and
  not at all otherwise.
\<close>

theorem one_fetch_at_most:
  "\<exists>out. api_weather OPENWEATHER_API_KEY fetch city = Inr out \<and>
         fetched out =
           (if falsy city \<or> falsy OPENWEATHER_API_KEY then []
            else [openWeatherMapUrl city OPENWEATHER_API_KEY])"
  by (auto simp: api_weather_def Let_def split: sum.splits)

text \<open>
  A city that is present but empty (\<^verbatim>\<open>?city=\<close>) does not lead to a fetch although the
  credential is configured, and neither does a credential that is set to the empty string.
\<close>

theorem empty_city_no_fetch_counterexample:
  "api_weather (Some ''k'') (stub Rejects) (Some []) =
     Inr \<lparr>res = \<lparr>statusCode = 400,
                 content = Json (JObj [(''error'', JStr ''City parameter is required.'')])\<rparr>,
          fetched = []\<rparr>
   \<and> api_weather (Some []) (stub Rejects) (Some ''London'') =
     Inr \<lparr>res = \<lparr>statusCode = 500,
                 content = Json (JObj
                   [(''error'', JStr ''Server is not configured with the API key.'')])\<rparr>,
          fetched = []\<rparr>"
  by (simp add: api_weather_def json_reply_def error_body_def)

text \<open>
  C8, as amended: for every credential, city (absent or a string) and provider behaviour
  the handler replies and lets no throw escape. The reply is one of two. Either the
  provider answered with a 2xx status and a parsed body, and the reply is status 200 with
  an object of exactly the seven summary keys, each holding what the provider's body has
  at \<^verbatim>\<open>name\<close>, \<^verbatim>\<open>sys.country\<close>, \<^verbatim>\<open>main.temp\<close>, \<^verbatim>\<open>main.feels_like\<close>,
  \<^verbatim>\<open>weather[0].description\<close>, \<^verbatim>\<open>weather[0].icon\<close> and \<^verbatim>\<open>main.humidity\<close>
  (\<^verbatim>\<open>undefined\<close> where it has nothing). Or the reply is an object \<^verbatim>\<open>{ error: m }\<close> with
  status 400, 500 or the provider's status outside 200..299, in which \<open>m\<close> is truthy and
  is a string or the provider's \<^verbatim>\<open>message\<close> value, forwarded as it is.
\<close>

theorem reply_is_summary_or_error:
  "\<exists>out. api_weather OPENWEATHER_API_KEY fetch city = Inr out \<and>
     ((\<exists>response data.
         fetch (openWeatherMapUrl city OPENWEATHER_API_KEY) = Resolves response \<and>
         ok response \<and> parsed response = Some data \<and>
         res out =
           \<lparr>statusCode = 200,
            content = Json (JObj
              [(''city'', own_prop data ''name''),
               (''country'', own_prop (own_prop data ''sys'') ''country''),
               (''temperature'', own_prop (own_prop data ''main'') ''temp''),
               (''feelsLike'', own_prop (own_prop data ''main'') ''feels_like''),
               (''description'',
                  own_prop (own_first (own_prop data ''weather'')) ''description''),
               (''icon'', own_prop (own_first (own_prop data ''weather'')) ''icon''),
               (''humidity'', own_prop (own_prop data ''main'') ''humidity'')])\<rparr>) \<or>
      (\<exists>m. content (res out) = Json (JObj [(''error'', m)]) \<and> truthy m \<and>
         \<not> (200 \<le> statusCode (res out) \<and> statusCode (res out) < 300) \<and>
         (statusCode (res out) = 400 \<or> statusCode (res out) = 500 \<or>
          (\<exists>response.
             fetch (openWeatherMapUrl city OPENWEATHER_API_KEY) = Resolves response \<and>
             statusCode (res out) = status response)) \<and>
         (is_string m \<or>
          (\<exists>response data.
             fetch (openWeatherMapUrl city OPENWEATHER_API_KEY) = Resolves response \<and>
             parsed response = Some data \<and> m = own_prop data ''message''))))"
proof (cases "falsy city \<or> falsy OPENWEATHER_API_KEY")
  case True
  then show ?thesis
    by (auto simp: api_weather_def json_reply_def error_body_def is_string_def)
next
  case False
  then have called: "\<not> falsy city" "\<not> falsy OPENWEATHER_API_KEY" by simp_all
  let ?url = "openWeatherMapUrl city OPENWEATHER_API_KEY"
  show ?thesis
  proof (cases "try_block (fetch ?url)")
    case (Inl e)
    then show ?thesis
      by (simp add: api_weather_called [OF called] is_string_def)
  next
    case (Inr sent)
    then have out: "api_weather OPENWEATHER_API_KEY fetch city =
                      Inr \<lparr>res = sent, fetched = [?url]\<rparr>"
      by (simp add: api_weather_called [OF called])
    from try_block_sent [OF Inr] obtain response data where
      r: "fetch ?url = Resolves response" "parsed response = Some data"
      and s: "if ok response then
              sent = \<lparr>statusCode = 200,
                      content = Json (JObj
                        [(''city'', own_prop data ''name''),
                         (''country'', own_prop (own_prop data ''sys'') ''country''),
                         (''temperature'', own_prop (own_prop data ''main'') ''temp''),
                         (''feelsLike'', own_prop (own_prop data ''main'') ''feels_like''),
                         (''description'',
                            own_prop (own_first (own_prop data ''weather'')) ''description''),
                         (''icon'', own_prop (own_first (own_prop data ''weather'')) ''icon''),
                         (''humidity'', own_prop (own_prop data ''main'') ''humidity'')])\<rparr>
            else
              sent = \<lparr>statusCode = status response,
                      content = Json (JObj
                        [(''error'', or_else (own_prop data ''message'')
                           (JStr ''Error fetching weather data from external API''))])\<rparr>"
      by blast
    show ?thesis
    proof (cases "ok response")
      case True
      with s r out show ?thesis by auto
    next
      case False
      with s have sent: "sent = \<lparr>statusCode = status response,
                      content = Json (JObj
                        [(''error'', or_else (own_prop data ''message'')
                           (JStr ''Error fetching weather data from external API''))])\<rparr>"
        by simp
      have st: "\<not> (200 \<le> statusCode sent \<and> statusCode sent < 300)"
        using False sent by (simp add: ok_def)
      have tr: "truthy (or_else (own_prop data ''message'')
                        (JStr ''Error fetching weather data from external API''))"
        by (simp add: or_else_def)
      have src: "is_string (or_else (own_prop data ''message'')
                        (JStr ''Error fetching weather data from external API'')) \<or>
                 or_else (own_prop data ''message'')
                        (JStr ''Error fetching weather data from external API'') =
                   own_prop data ''message''"
        by (simp add: or_else_def is_string_def)
      have code: "statusCode sent = status response" using sent by simp
      have body: "content sent = Json (JObj
                        [(''error'', or_else (own_prop data ''message'')
                           (JStr ''Error fetching weather data from external API''))])"
        using sent by simp
      show ?thesis
        unfolding out using st tr src code body r by auto
    qed
  qed
qed

text \<open>
  The summary is not always complete and the error is not always a string: a 2xx body
  that lacks \<^verbatim>\<open>sys.country\<close>, most of \<^verbatim>\<open>main\<close> and the fields of \<^verbatim>\<open>weather[0]\<close> gives
  a 200 reply in which five of the seven values are \<^verbatim>\<open>undefined\<close>, and a 404 whose
  \<^verbatim>\<open>message\<close> is the number 404 gives \<^verbatim>\<open>{ error: 404 }\<close>.
\<close>

theorem partial_summary_counterexample:
  "api_weather (Some ''k'')
     (stub (Resolves \<lparr>status = 200, parsed = Some (JObj
        [(''name'', JStr ''London''), (''sys'', JObj []),
         (''main'', JObj [(''temp'', JNum 15)]), (''weather'', JArr [JObj []])])\<rparr>))
     (Some ''London'') =
   Inr \<lparr>res = \<lparr>statusCode = 200,
               content = Json (JObj
                 [(''city'', JStr ''London''), (''country'', JUndefined),
                  (''temperature'', JNum 15), (''feelsLike'', JUndefined),
                  (''description'', JUndefined), (''icon'', JUndefined),
                  (''humidity'', JUndefined)])\<rparr>,
        fetched = [''https://api.openweathermap.org/data/2.5/weather?q=London&appid=k&units=metric'']\<rparr>
   \<and> api_weather (Some ''k'')
     (stub (Resolves \<lparr>status = 404, parsed = Some (JObj [(''message'', JNum 404)])\<rparr>))
     (Some ''London'') =
   Inr \<lparr>res = \<lparr>statusCode = 404, content = Json (JObj [(''error'', JNum 404)])\<rparr>,
        fetched = [''https://api.openweathermap.org/data/2.5/weather?q=London&appid=k&units=metric'']\<rparr>
   \<and> \<not> is_string (JNum 404)"
  by (simp add: api_weather_def try_block_def weatherInfo_def dot_def at0_def res_status_def
      stub_def ok_def openWeatherMapUrl_def json_reply_def error_body_def or_else_def
      is_string_def)

text \<open>
  C9: when the provider answers with a 2xx status and a body whose \<^verbatim>\<open>weather\<close> is absent
  or the empty list, the throw of the field access is caught: the handler replies 500 with
  \<^verbatim>\<open>{ error: "Failed to fetch weather data." }\<close>, as it does for a transport failure.
\<close>

theorem empty_weather_500:
  assumes "\<not> falsy city" and "\<not> falsy OPENWEATHER_API_KEY"
    and "fetch (openWeatherMapUrl city OPENWEATHER_API_KEY) = Resolves response"
    and "ok response" and "parsed response = Some data"
    and "own_prop data ''weather'' = JUndefined \<or> own_prop data ''weather'' = JArr []"
  shows "api_weather OPENWEATHER_API_KEY fetch city =
           Inr \<lparr>res = \<lparr>statusCode = 500,
                       content = Json (JObj [(''error'', JStr ''Failed to fetch weather data.'')])\<rparr>,
                fetched = [openWeatherMapUrl city OPENWEATHER_API_KEY]\<rparr>"
proof -
  obtain e where "weatherInfo data = Inl e"
    using weatherInfo_throws [OF no_weather_throws [OF assms(6)]] by blast
  then have "try_block (fetch (openWeatherMapUrl city OPENWEATHER_API_KEY)) = Inl e"
    using assms(3-5) by (simp add: try_block_ok)
  then show ?thesis
    using assms(1,2) by (simp add: api_weather_called)
qed

theorem empty_weather_500_witness:
  "api_weather (Some ''k'')
     (stub (Resolves \<lparr>status = 200, parsed = Some (JObj
        [(''name'', JStr ''London''), (''sys'', JObj [(''country'', JStr ''GB'')]),
         (''main'', JObj [(''temp'', JNum 15), (''feels_like'', JNum 14), (''humidity'', JNum 80)]),
         (''weather'', JArr [])])\<rparr>))
     (Some ''London'') =
   Inr \<lparr>res = \<lparr>statusCode = 500,
               content = Json (JObj [(''error'', JStr ''Failed to fetch weather data.'')])\<rparr>,
        fetched = [''https://api.openweathermap.org/data/2.5/weather?q=London&appid=k&units=metric'']\<rparr>
   \<and> api_weather (Some ''k'')
     (stub (Resolves \<lparr>status = 200, parsed = Some (JObj [(''name'', JStr ''London'')])\<rparr>))
     (Some ''London'') =
   Inr \<lparr>res = \<lparr>statusCode = 500,
               content = Json (JObj [(''error'', JStr ''Failed to fetch weather data.'')])\<rparr>,
        fetched = [''https://api.openweathermap.org/data/2.5/weather?q=London&appid=k&units=metric'']\<rparr>"
  using empty_weather_500
    [of "Some ''London''" "Some ''k''"
        "stub (Resolves \<lparr>status = 200, parsed = Some (JObj
        [(''name'', JStr ''London''), (''sys'', JObj [(''country'', JStr ''GB'')]),
         (''main'', JObj [(''temp'', JNum 15), (''feels_like'', JNum 14), (''humidity'', JNum 80)]),
         (''weather'', JArr [])])\<rparr>)"
        "\<lparr>status = 200, parsed = Some (JObj
        [(''name'', JStr ''London''), (''sys'', JObj [(''country'', JStr ''GB'')]),
         (''main'', JObj [(''temp'', JNum 15), (''feels_like'', JNum 14), (''humidity'', JNum 80)]),
         (''weather'', JArr [])])\<rparr>"
        "JObj
        [(''name'', JStr ''London''), (''sys'', JObj [(''country'', JStr ''GB'')]),
         (''main'', JObj [(''temp'', JNum 15), (''feels_like'', JNum 14), (''humidity'', JNum 80)]),
         (''weather'', JArr [])]"]
    empty_weather_500
    [of "Some ''London''" "Some ''k''"
        "stub (Resolves \<lparr>status = 200, parsed = Some (JObj [(''name'', JStr ''London'')])\<rparr>)"
        "\<lparr>status = 200, parsed = Some (JObj [(''name'', JStr ''London'')])\<rparr>"
        "JObj [(''name'', JStr ''London'')]"]
  by (simp add: stub_def ok_def openWeatherMapUrl_def)

text \<open>
  C10: the URL handed to \<^verbatim>\<open>fetch\<close> is the city and the credential placed as they are,
  with no encoding, in
  \<^verbatim>\<open>https://api.openweathermap.org/data/2.5/weather?q=<city>&appid=<key>&units=metric\<close>,
  for every non-empty city, also one that contains \<^verbatim>\<open>&\<close>, \<^verbatim>\<open>=\<close> or a space.
\<close>

theorem url_is_verbatim_concatenation:
  assumes "c \<noteq> []" and "k \<noteq> []"
  shows "\<exists>out. api_weather (Some k) fetch (Some c) = Inr out \<and>
           fetched out =
             [''https://api.openweathermap.org/data/2.5/weather?q='' @ c @
              ''&appid='' @ k @ ''&units=metric'']"
  using assms by (auto simp: api_weather_def Let_def openWeatherMapUrl_def split: sum.splits)

theorem url_is_verbatim_concatenation_witness:
  "\<exists>out. api_weather (Some ''k'') (stub Rejects) (Some ''a b&units=imperial#'') = Inr out \<and>
      fetched out =
        [''https://api.openweathermap.org/data/2.5/weather?q=a b&units=imperial#&appid=k&units=metric'']"
  using url_is_verbatim_concatenation [of "''a b&units=imperial#''" "''k''" "stub Rejects"]
  by simp

end
